theory Spec2Isabelle
  imports Main
begin

section \<open>JavaScript values\<close>

text \<open>
  The builder of \<^verbatim>\<open>src/dsl/utils.ts\<close> works on plain JavaScript data.  A string is
  a list of code units; the model covers the code units below 256, which is what
  \<^typ>\<open>char\<close> holds.  An object is a finite mapping from property names to values;
  a property that is not there reads as \<^term>\<open>None\<close> (JavaScript's \<^verbatim>\<open>undefined\<close>).
  A variable that may hold \<^verbatim>\<open>null\<close> or \<^verbatim>\<open>undefined\<close> is an \<^typ>\<open>'a option\<close>:
  lodash's \<^verbatim>\<open>isNil\<close> is true exactly of these two, which are both \<^term>\<open>None\<close>.
\<close>

datatype jsvalue =
    JNull
  | JBool bool
  | JNum int
  | JStr string
  | JArr "jsvalue list"
  | JObj "string \<Rightarrow> jsvalue option"

type_synonym jsobject = "string \<Rightarrow> jsvalue option"

text \<open>Reading a property of a value: only an object has properties.\<close>

fun property :: "string \<Rightarrow> jsvalue \<Rightarrow> jsvalue option" where
  "property k (JObj m) = m k"
| "property k v = None"

text \<open>\<^verbatim>\<open>throw new Error(message)\<close>: the code has one error class and tells the
  failures apart by their message.\<close>

datatype error = Error string

section \<open>Library functions the builder calls\<close>

text \<open>
  underscore's \<^verbatim>\<open>extend(destination, source)\<close> copies every property of the source
  over the destination, one level deep: a property of the source replaces the
  property of the same name in the destination, whole.  A source that is
  \<^verbatim>\<open>undefined\<close> has no properties.
\<close>

definition extend_obj :: "jsobject \<Rightarrow> jsobject option \<Rightarrow> jsobject" where
  "extend_obj destination source =
     (case source of None \<Rightarrow> destination | Some s \<Rightarrow> destination ++ s)"

text \<open>\<^verbatim>\<open>Array.prototype.indexOf\<close>: the first position of the element, or \<open>-1\<close>.\<close>

fun indexOf :: "'a list \<Rightarrow> 'a \<Rightarrow> int" where
  "indexOf [] x = - 1"
| "indexOf (y # ys) x =
     (if y = x then 0 else (let i = indexOf ys x in if i < 0 then - 1 else i + 1))"

text \<open>\<^verbatim>\<open>Array.prototype.join\<close>.\<close>

fun join :: "string \<Rightarrow> string list \<Rightarrow> string" where
  "join sep [] = []"
| "join sep [x] = x"
| "join sep (x # y # ys) = x @ sep @ join sep (y # ys)"

text \<open>
  The class \<^verbatim>\<open>\s\<close> of a JavaScript regular expression, on the code units below
  256: tab, line feed, vertical tab, form feed, carriage return, space and the
  no-break space.
\<close>

definition isspace :: "char \<Rightarrow> bool" where
  "isspace c \<longleftrightarrow> c \<in> {CHR 0x09, CHR 0x0A, CHR 0x0B, CHR 0x0C, CHR 0x0D, CHR 0x20, CHR 0xA0}"

text \<open>
  \<^verbatim>\<open>s.replace(/\s+/g, replacement)\<close>: the scan goes from left to right; where it
  meets a whitespace character the greedy \<^verbatim>\<open>\s+\<close> takes it and all the whitespace
  that follows, the replacement is written once, and the scan goes on behind the
  match; any other character is copied.
\<close>

function replace_spaces :: "string \<Rightarrow> string \<Rightarrow> string" where
  "replace_spaces replacement [] = []"
| "replace_spaces replacement (c # cs) =
     (if isspace c then replacement @ replace_spaces replacement (dropWhile isspace cs)
      else c # replace_spaces replacement cs)"
  by pat_completeness auto
termination
  by (relation "measure (\<lambda>(r, s). length s)")
     (auto simp: length_dropWhile_le less_Suc_eq_le)

text \<open>The string literal \<^verbatim>\<open>"\\s+"\<close> of line 108: a backslash, \<open>s\<close> and \<open>+\<close>.\<close>

definition backslash :: char where
  "backslash = CHR 0x5C"

definition space_class :: string where
  "space_class = [backslash, CHR ''s'', CHR ''+'']"

text \<open>
  The GraphQL parser \<^verbatim>\<open>gql\<close> of graphql-tag is a parameter of the model: applied to
  a string it either returns (\<^term>\<open>None\<close>) or throws an exception, of which the
  builder reads the message (\<^term>\<open>Some message\<close>).
\<close>

type_synonym parser = "string \<Rightarrow> string option"

section \<open>The interaction record and the generic builder\<close>

text \<open>
  Modelled from the spec: the type \<^verbatim>\<open>InteractionState\<close> is declared in
  \<^verbatim>\<open>src/dsl/interaction.ts\<close>, which is not among the sources.  Section 3 of the
  specification gives the record its four fields, each optional until it is set.
\<close>

record InteractionState =
  description :: "string option"
  stateDescription :: "string option"
  request :: "jsobject option"
  response :: "jsobject option"

text \<open>
  Modelled from the spec: the function \<^verbatim>\<open>regex\<close> of \<^verbatim>\<open>src/dsl/matchers.ts\<close> is not
  among the sources.  Section 4.1 of the specification: the operation takes
  \<open>generate\<close> and \<open>pattern\<close> and its output is \<^verbatim>\<open>{ generate, matcher: pattern }\<close>.
\<close>

definition regex :: "string \<Rightarrow> string \<Rightarrow> jsvalue" where
  "regex generate pattern =
     JObj [''generate'' \<mapsto> JStr generate, ''matcher'' \<mapsto> JStr pattern]"

section \<open>The GraphQL builder\<close>

text \<open>
  The class \<^verbatim>\<open>GraphQLInteraction\<close>: the inherited \<^verbatim>\<open>state\<close> and the three private
  fields.  \<^verbatim>\<open>operation\<close> starts as \<^verbatim>\<open>null\<close>, \<^verbatim>\<open>variables\<close> as the empty object and
  \<^verbatim>\<open>query\<close> is not initialised.
\<close>

record GraphQLInteraction =
  state :: InteractionState
  operation :: "string option"
  variables :: jsvalue
  query :: "string option"

definition new_GraphQLInteraction :: GraphQLInteraction where
  "new_GraphQLInteraction =
     \<lparr> state = \<lparr> description = None, stateDescription = None,
                 request = None, response = None \<rparr>,
       operation = None, variables = JObj Map.empty, query = None \<rparr>"

text \<open>
  The setters of the base class \<^verbatim>\<open>Interaction\<close> are in \<^verbatim>\<open>src/dsl/interaction.ts\<close>,
  which is not among the sources; they are taken from section 4.2 of the
  specification, where each records its argument over what was there and none of
  them fails.
\<close>

text \<open>
  Modelled from the spec: \<^verbatim>\<open>given\<close> of \<^verbatim>\<open>Interaction\<close> is missing.  Section 4.2:
  it records the provider-state precondition and overwrites any previous value.
\<close>

definition given :: "string \<Rightarrow> GraphQLInteraction \<Rightarrow> GraphQLInteraction" where
  "given providerState g = g\<lparr>state := (state g)\<lparr>stateDescription := Some providerState\<rparr>\<rparr>"

text \<open>
  Modelled from the spec: \<^verbatim>\<open>uponReceiving\<close> of \<^verbatim>\<open>Interaction\<close> is missing.
  Section 4.2: it records the human-readable description and overwrites any
  previous value.
\<close>

definition uponReceiving :: "string \<Rightarrow> GraphQLInteraction \<Rightarrow> GraphQLInteraction" where
  "uponReceiving d g = g\<lparr>state := (state g)\<lparr>description := Some d\<rparr>\<rparr>"

text \<open>
  Modelled from the spec: \<^verbatim>\<open>withRequest\<close> of \<^verbatim>\<open>Interaction\<close> is missing.
  Section 4.2: it records the request shape, that is, the method, path, headers,
  query and body that the caller passes.
\<close>

definition withRequest :: "jsobject \<Rightarrow> GraphQLInteraction \<Rightarrow> GraphQLInteraction" where
  "withRequest requestOpts g = g\<lparr>state := (state g)\<lparr>request := Some requestOpts\<rparr>\<rparr>"

text \<open>
  Modelled from the spec: \<^verbatim>\<open>willRespondWith\<close> of \<^verbatim>\<open>Interaction\<close> is missing.
  Section 4.2: it records the status, headers and body of the response.
\<close>

definition willRespondWith :: "jsobject \<Rightarrow> GraphQLInteraction \<Rightarrow> GraphQLInteraction" where
  "willRespondWith responseOpts g = g\<lparr>state := (state g)\<lparr>response := Some responseOpts\<rparr>\<rparr>"

text \<open>
  The methods of \<^verbatim>\<open>GraphQLInteraction\<close>.  A method that can throw returns the
  error it threw, if any, together with the builder as the call leaves it; a
  method that returns \<^verbatim>\<open>this\<close> returns the builder.
\<close>

text \<open>The enum \<^verbatim>\<open>GraphQLOperations\<close> and lodash's \<^verbatim>\<open>keys\<close> of it.\<close>

definition GraphQLOperations :: "(string \<times> string) list" where
  "GraphQLOperations = [(''query'', ''query''), (''mutation'', ''mutation'')]"

definition keys :: "(string \<times> 'v) list \<Rightarrow> string list" where
  "keys obj = map fst obj"

text \<open>
  \<^verbatim>\<open>withOperation\<close>, lines 36 to 44.  \<^verbatim>\<open>!operation\<close> is true of \<^verbatim>\<open>null\<close> and of
  the empty string.
\<close>

definition withOperation ::
  "string option \<Rightarrow> GraphQLInteraction \<Rightarrow> error option \<times> GraphQLInteraction" where
  "withOperation op g =
     (case op of
        None \<Rightarrow>
          (Some (Error (''You must provide a valid HTTP method: ''
                          @ join '', '' (keys GraphQLOperations) @ ''.'')), g)
      | Some v \<Rightarrow>
          if v = [] \<or> indexOf (keys GraphQLOperations) v < 0
          then (Some (Error (''You must provide a valid HTTP method: ''
                               @ join '', '' (keys GraphQLOperations) @ ''.'')), g)
          else (None, g\<lparr>operation := Some v\<rparr>))"

text \<open>\<^verbatim>\<open>withVariables\<close>, lines 51 to 55.\<close>

definition withVariables :: "jsvalue \<Rightarrow> GraphQLInteraction \<Rightarrow> GraphQLInteraction" where
  "withVariables vs g = g\<lparr>variables := vs\<rparr>"

text \<open>\<^verbatim>\<open>withQuery\<close>, lines 77 to 91.\<close>

definition withQuery ::
  "parser \<Rightarrow> string option \<Rightarrow> GraphQLInteraction \<Rightarrow> error option \<times> GraphQLInteraction" where
  "withQuery gql q g =
     (case q of
        None \<Rightarrow> (Some (Error ''You must provide a GraphQL query.''), g)
      | Some s \<Rightarrow>
          (case gql s of
             Some message \<Rightarrow> (Some (Error (''GraphQL Query is invalid: '' @ message)), g)
           | None \<Rightarrow> (None, g\<lparr>query := Some s\<rparr>)))"

text \<open>
  \<^verbatim>\<open>json\<close>, lines 97 to 116.  The first argument of \<^verbatim>\<open>extend\<close> is the object
  literal of lines 105 to 113; the value returned is \<^verbatim>\<open>this.state\<close>, which the call
  has updated.
\<close>

definition graphql_request :: "GraphQLInteraction \<Rightarrow> string \<Rightarrow> jsobject" where
  "graphql_request g q =
     [''body'' \<mapsto>
        JObj [''operationName'' \<mapsto> (case operation g of None \<Rightarrow> JNull | Some v \<Rightarrow> JStr v),
              ''query'' \<mapsto> regex q (replace_spaces space_class q),
              ''variables'' \<mapsto> variables g],
      ''headers'' \<mapsto> JObj [''content-type'' \<mapsto> JStr ''application/json''],
      ''method'' \<mapsto> JStr ''POST'']"

definition json ::
  "GraphQLInteraction \<Rightarrow> (error + InteractionState) \<times> GraphQLInteraction" where
  "json g =
     (case query g of
        None \<Rightarrow> (Inl (Error ''You must provide a GraphQL query.''), g)
      | Some q \<Rightarrow>
          (case description (state g) of
             None \<Rightarrow> (Inl (Error ''You must provide a description for the query.''), g)
           | Some d \<Rightarrow>
               (let st = (state g)\<lparr>request :=
                            Some (extend_obj (graphql_request g q) (request (state g)))\<rparr>
                in (Inr st, g\<lparr>state := st\<rparr>))))"

section \<open>Reading a finalized record\<close>

text \<open>
  The properties of the request of a record, and those of the request's body and
  headers: what a consumer of the record returned by \<^verbatim>\<open>json\<close> reads as
  \<^verbatim>\<open>record.request[k]\<close>, \<^verbatim>\<open>record.request.body[k]\<close> and
  \<^verbatim>\<open>record.request.headers[k]\<close>.
\<close>

definition request_property :: "InteractionState \<Rightarrow> string \<Rightarrow> jsvalue option" where
  "request_property st k = (case request st of None \<Rightarrow> None | Some r \<Rightarrow> r k)"

definition body_property :: "InteractionState \<Rightarrow> string \<Rightarrow> jsvalue option" where
  "body_property st k =
     (case request_property st ''body'' of None \<Rightarrow> None | Some b \<Rightarrow> property k b)"

definition header :: "InteractionState \<Rightarrow> string \<Rightarrow> jsvalue option" where
  "header st k =
     (case request_property st ''headers'' of None \<Rightarrow> None | Some h \<Rightarrow> property k h)"

definition descriptor_property :: "InteractionState \<Rightarrow> string \<Rightarrow> jsvalue option" where
  "descriptor_property st k =
     (case body_property st ''query'' of None \<Rightarrow> None | Some m \<Rightarrow> property k m)"

section \<open>The matcher as the specification words it\<close>

text \<open>
  Section 4.1 of the specification derives the pattern from a query by replacing
  every maximal run of one or more whitespace characters by the class of one or more
  whitespace characters and leaving all other characters as they are.  In these
  words: \<open>runs\<close> cuts a string into its maximal runs, each marked as a run of
  whitespace or a run of other characters, and \<open>spec_matcher\<close> writes the class,
  the three characters backslash, \<open>s\<close> and \<open>+\<close>, for each run of whitespace and
  the run itself for each other run.
\<close>

fun runs :: "string \<Rightarrow> (bool \<times> string) list" where
  "runs [] = []"
| "runs (c # cs) =
     (case runs cs of
        [] \<Rightarrow> [(isspace c, [c])]
      | (w, r) # rs \<Rightarrow>
          if w = isspace c then (w, c # r) # rs else (isspace c, [c]) # (w, r) # rs)"

definition spec_matcher :: "string \<Rightarrow> string" where
  "spec_matcher q =
     concat (map (\<lambda>(w, r). if w then [CHR 0x5C, CHR ''s'', CHR ''+''] else r) (runs q))"

section \<open>Whitespace variants\<close>

text \<open>
  A string is a whitespace variant of another, in the sense of section 8 of the
  specification, when it is obtained by inserting, deleting or replacing runs of
  whitespace anywhere between the other characters: the two strings are the same
  once all whitespace is taken out.
\<close>

definition whitespace_variant :: "string \<Rightarrow> string \<Rightarrow> bool" where
  "whitespace_variant q q' \<longleftrightarrow>
     filter (\<lambda>c. \<not> isspace c) q' = filter (\<lambda>c. \<not> isspace c) q"

section \<open>Basic facts\<close>

lemma indexOf_negative_iff: "indexOf xs x < 0 \<longleftrightarrow> x \<notin> set xs"
  by (induction xs) (auto simp: Let_def)

lemma indexOf_lower_bound: "- 1 \<le> indexOf xs x"
  by (induction xs) (auto simp: Let_def)

lemma keys_GraphQLOperations: "keys GraphQLOperations = [''query'', ''mutation'']"
  by (simp add: keys_def GraphQLOperations_def)

lemma operation_message:
  "''You must provide a valid HTTP method: '' @ join '', '' (keys GraphQLOperations) @ ''.''
     = ''You must provide a valid HTTP method: query, mutation.''"
  by (simp add: keys_GraphQLOperations)

lemma extend_obj_apply:
  "extend_obj d s k =
     (case s of None \<Rightarrow> d k
      | Some m \<Rightarrow> (case m k of None \<Rightarrow> d k | Some v \<Rightarrow> Some v))"
  by (simp add: extend_obj_def map_add_def split: option.splits)

lemma json_no_query:
  "query g = None \<Longrightarrow> json g = (Inl (Error ''You must provide a GraphQL query.''), g)"
  by (simp add: json_def)

lemma json_no_description:
  "query g = Some q \<Longrightarrow> description (state g) = None \<Longrightarrow>
   json g = (Inl (Error ''You must provide a description for the query.''), g)"
  by (simp add: json_def)

lemma json_success:
  assumes "query g = Some q" and "description (state g) = Some d"
  shows "json g =
           (Inr ((state g)\<lparr>request :=
                    Some (extend_obj (graphql_request g q) (request (state g)))\<rparr>),
            g\<lparr>state := (state g)\<lparr>request :=
                    Some (extend_obj (graphql_request g q) (request (state g)))\<rparr>\<rparr>)"
  using assms by (simp add: json_def Let_def)

lemma json_returns_cases:
  assumes "fst (json g) = Inr st"
  obtains q d where "query g = Some q" and "description (state g) = Some d"
    and "st = (state g)\<lparr>request :=
                 Some (extend_obj (graphql_request g q) (request (state g)))\<rparr>"
    and "snd (json g) = g\<lparr>state := st\<rparr>"
  using assms by (auto simp: json_def Let_def split: option.splits)

lemma json_keeps_fields:
  assumes "fst (json g) = Inr st"
  shows "snd (json g) = g\<lparr>state := st\<rparr>"
    and "description st = description (state g)"
    and "stateDescription st = stateDescription (state g)"
    and "response st = response (state g)"
  using assms by (auto elim!: json_returns_cases)

lemma request_property_json:
  assumes "fst (json g) = Inr st" and "query g = Some q"
  shows "request_property st k =
           (case request_property (state g) k of
              None \<Rightarrow> graphql_request g q k
            | Some v \<Rightarrow> Some v)"
  using assms(1)
proof (rule json_returns_cases)
  fix q' d
  assume "query g = Some q'"
    and st: "st = (state g)\<lparr>request :=
                    Some (extend_obj (graphql_request g q') (request (state g)))\<rparr>"
  with assms(2) have "q' = q" by simp
  with st show ?thesis
    by (simp add: request_property_def extend_obj_apply split: option.splits)
qed

lemma graphql_request_simps:
  "graphql_request g q ''body'' =
     Some (JObj [''operationName'' \<mapsto> (case operation g of None \<Rightarrow> JNull | Some v \<Rightarrow> JStr v),
                 ''query'' \<mapsto> regex q (replace_spaces space_class q),
                 ''variables'' \<mapsto> variables g])"
  "graphql_request g q ''headers'' = Some (JObj [''content-type'' \<mapsto> JStr ''application/json''])"
  "graphql_request g q ''method'' = Some (JStr ''POST'')"
  by (simp_all add: graphql_request_def)

lemma body_property_json:
  assumes "fst (json g) = Inr st" and "query g = Some q"
    and "request_property (state g) ''body'' = None"
  shows "body_property st ''operationName''
           = Some (case operation g of None \<Rightarrow> JNull | Some v \<Rightarrow> JStr v)"
    and "body_property st ''query'' = Some (regex q (replace_spaces space_class q))"
    and "body_property st ''variables'' = Some (variables g)"
  using request_property_json [OF assms(1,2), of "''body''"] assms(3)
  by (simp_all add: body_property_def graphql_request_simps)

lemma withOperation_accepts:
  "v \<in> {''query'', ''mutation''} \<Longrightarrow>
   withOperation (Some v) g = (None, g\<lparr>operation := Some v\<rparr>)"
  by (auto simp: withOperation_def indexOf_negative_iff keys_GraphQLOperations)

lemma withOperation_rejects:
  "op \<notin> {Some ''query'', Some ''mutation''} \<Longrightarrow>
   withOperation op g =
     (Some (Error ''You must provide a valid HTTP method: query, mutation.''), g)"
  by (cases op)
     (auto simp: withOperation_def indexOf_negative_iff keys_GraphQLOperations)

section \<open>Facts about the matcher\<close>

lemma runs_head: "\<exists>r rs. runs (x # xs) = (isspace x, r) # rs"
  by (auto split: list.splits)

lemma spec_matcher_space:
  "isspace c \<Longrightarrow> spec_matcher (c # cs) = space_class @ spec_matcher (dropWhile isspace cs)"
proof (induction cs arbitrary: c)
  case Nil
  then show ?case by (simp add: spec_matcher_def space_class_def backslash_def)
next
  case (Cons x xs)
  obtain r rs where r: "runs (x # xs) = (isspace x, r) # rs"
    using runs_head by blast
  show ?case
  proof (cases "isspace x")
    case True
    with Cons.IH [of x] Cons.prems r show ?thesis
      by (simp add: spec_matcher_def space_class_def backslash_def)
  next
    case False
    with Cons.prems r show ?thesis
      by (simp add: spec_matcher_def space_class_def backslash_def)
  qed
qed

lemma spec_matcher_other:
  "\<not> isspace c \<Longrightarrow> spec_matcher (c # cs) = c # spec_matcher cs"
  by (auto simp: spec_matcher_def split: list.splits)

lemma replace_spaces_refines: "replace_spaces space_class q = spec_matcher q"
  by (induction space_class q rule: replace_spaces.induct)
     (simp_all add: spec_matcher_space spec_matcher_other, simp add: spec_matcher_def)

text \<open>
  \<open>runs\<close> cuts a string into its maximal runs: the runs put together are the
  string, every run is non-empty and of one kind, and two runs that follow one
  another are of different kinds.
\<close>

lemma runs_concat: "concat (map snd (runs q)) = q"
  by (induction q) (auto split: list.splits)

lemma runs_marks:
  "list_all (\<lambda>(w, r). r \<noteq> [] \<and> list_all (\<lambda>c. isspace c = w) r) (runs q)"
  by (induction q) (auto split: list.splits)

lemma runs_alternate: "distinct_adj (map fst (runs q))"
  by (induction q) (auto split: list.splits)

lemma descriptor_property_json:
  assumes "fst (json g) = Inr st" and "query g = Some q"
    and "request_property (state g) ''body'' = None"
  shows "descriptor_property st ''generate'' = Some (JStr q)"
    and "descriptor_property st ''matcher'' = Some (JStr (replace_spaces space_class q))"
  using body_property_json(2) [OF assms]
  by (simp_all add: descriptor_property_def regex_def)

section \<open>Invalid queries\<close>

text \<open>
  C7.  A query that the parser rejects makes \<^verbatim>\<open>withQuery\<close> throw at once: the
  call itself returns the error, whose message is the prefix
  \<^verbatim>\<open>GraphQL Query is invalid: \<close> followed by the parser's own message, and the
  query is not stored.
\<close>

theorem withQuery_invalid:
  assumes "gql q = Some message"
  shows "withQuery gql (Some q) g
           = (Some (Error (''GraphQL Query is invalid: '' @ message)), g)"
  using assms by (simp add: withQuery_def)

theorem withQuery_invalid_witness:
  "map_of [(''{ invalid'', ''Syntax Error: Expected Name, found <EOF>'')] ''{ invalid''
     = Some ''Syntax Error: Expected Name, found <EOF>''
   \<and> withQuery (map_of [(''{ invalid'', ''Syntax Error: Expected Name, found <EOF>'')])
        (Some ''{ invalid'') new_GraphQLInteraction
     = (Some (Error ''GraphQL Query is invalid: Syntax Error: Expected Name, found <EOF>''),
        new_GraphQLInteraction)"
  using withQuery_invalid
    [of "map_of [(''{ invalid'', ''Syntax Error: Expected Name, found <EOF>'')]"
        "''{ invalid''" "''Syntax Error: Expected Name, found <EOF>''"
        new_GraphQLInteraction]
  by simp

section \<open>Failing calls leave the builder as it was\<close>

text \<open>
  C9.  When \<^verbatim>\<open>withOperation\<close> or \<^verbatim>\<open>withQuery\<close> throws, whatever the reason, the
  builder after the call is the builder before it: the stored operation, query and
  variables and the inherited state are all unchanged.
\<close>

theorem mutators_atomic:
  "(fst (withOperation op g) = Some e \<longrightarrow> snd (withOperation op g) = g) \<and>
   (fst (withQuery gql q g) = Some e' \<longrightarrow> snd (withQuery gql q g) = g)"
  by (auto simp: withOperation_def withQuery_def split: option.splits if_splits)

theorem mutators_atomic_witness:
  "fst (withOperation (Some ''subscription'') new_GraphQLInteraction)
     = Some (Error ''You must provide a valid HTTP method: query, mutation.'')
   \<and> snd (withOperation (Some ''subscription'') new_GraphQLInteraction)
       = new_GraphQLInteraction
   \<and> fst (withQuery Map.empty None new_GraphQLInteraction)
       = Some (Error ''You must provide a GraphQL query.'')
   \<and> snd (withQuery Map.empty None new_GraphQLInteraction) = new_GraphQLInteraction"
proof -
  have a: "fst (withOperation (Some ''subscription'') new_GraphQLInteraction)
             = Some (Error ''You must provide a valid HTTP method: query, mutation.'')"
    by (simp add: withOperation_def indexOf_negative_iff keys_GraphQLOperations)
  have b: "fst (withQuery Map.empty None new_GraphQLInteraction)
             = Some (Error ''You must provide a GraphQL query.'')"
    by (simp add: withQuery_def)
  from a b mutators_atomic
    [of "Some ''subscription''" new_GraphQLInteraction
        "Error ''You must provide a valid HTTP method: query, mutation.''"
        Map.empty None "Error ''You must provide a GraphQL query.''"]
  show ?thesis by simp
qed

section \<open>What finalization leaves alone\<close>

text \<open>
  C10.  A call of \<^verbatim>\<open>json\<close> that returns a record has changed the request of the
  builder's state and nothing else: the record returned is the state as it was
  with a new request, so its description, provider state and response are the ones
  stored before; and the builder after the call is the builder before it with that
  record as its state.
\<close>

theorem json_frame:
  assumes "fst (json g) = Inr st"
  shows "st = (state g)\<lparr>request := request st\<rparr>
       \<and> description st = description (state g)
       \<and> stateDescription st = stateDescription (state g)
       \<and> response st = response (state g)
       \<and> snd (json g) = g\<lparr>state := st\<rparr>"
  using assms by (rule json_returns_cases) simp

theorem json_frame_witness:
  "\<exists>st. fst (json (willRespondWith [''status'' \<mapsto> JNum 200]
                     (snd (withQuery Map.empty (Some ''{ id }'')
                        (given ''i have a list of projects''
                           (uponReceiving ''a request for projects''
                              new_GraphQLInteraction)))))) = Inr st
       \<and> description st = Some ''a request for projects''
       \<and> stateDescription st = Some ''i have a list of projects''
       \<and> (case response st of None \<Rightarrow> None | Some r \<Rightarrow> r ''status'') = Some (JNum 200)
       \<and> query (snd (json (willRespondWith [''status'' \<mapsto> JNum 200]
                     (snd (withQuery Map.empty (Some ''{ id }'')
                        (given ''i have a list of projects''
                           (uponReceiving ''a request for projects''
                              new_GraphQLInteraction))))))) = Some ''{ id }''"
proof -
  define g where "g = willRespondWith [''status'' \<mapsto> JNum 200]
                     (snd (withQuery Map.empty (Some ''{ id }'')
                        (given ''i have a list of projects''
                           (uponReceiving ''a request for projects''
                              new_GraphQLInteraction))))"
  have q: "query g = Some ''{ id }''"
    and d: "description (state g) = Some ''a request for projects''"
    and p: "stateDescription (state g) = Some ''i have a list of projects''"
    and r: "response (state g) = Some [''status'' \<mapsto> JNum 200]"
    by (simp_all add: g_def willRespondWith_def withQuery_def given_def uponReceiving_def
          new_GraphQLInteraction_def)
  obtain st where st: "fst (json g) = Inr st"
    using json_success [OF q d] by simp
  from json_frame [OF st] q d p r have
    "description st = Some ''a request for projects''
     \<and> stateDescription st = Some ''i have a list of projects''
     \<and> (case response st of None \<Rightarrow> None | Some r \<Rightarrow> r ''status'') = Some (JNum 200)
     \<and> query (snd (json g)) = Some ''{ id }''"
    by simp
  with st show ?thesis unfolding g_def by blast
qed

section \<open>Finalization without a description\<close>

text \<open>
  C8, as stated: every builder without a description fails at \<^verbatim>\<open>json\<close> with the
  missing-description error.  This does not hold of a builder that has no query
  either: lines 98 to 100 come first, and a fresh builder fails with the
  missing-query error.
\<close>

theorem json_no_description_counterexample:
  "description (state new_GraphQLInteraction) = None
   \<and> fst (json new_GraphQLInteraction) = Inl (Error ''You must provide a GraphQL query.'')
   \<and> fst (json new_GraphQLInteraction)
       \<noteq> Inl (Error ''You must provide a description for the query.'')"
  by (simp add: json_def new_GraphQLInteraction_def)

text \<open>
  C8, amended.  Every builder that has a query and no description fails at
  \<^verbatim>\<open>json\<close> with the missing-description error, whatever its provider state and its
  other fields are, and the call leaves the builder as it was.
\<close>

theorem json_missing_description:
  assumes "query g = Some q" and "description (state g) = None"
  shows "json g = (Inl (Error ''You must provide a description for the query.''), g)"
  using assms by (rule json_no_description)

theorem json_missing_description_witness:
  "query (snd (withQuery Map.empty (Some ''{ id }'')
                 (given ''i have a list of projects'' new_GraphQLInteraction)))
     = Some ''{ id }''
   \<and> stateDescription (state (snd (withQuery Map.empty (Some ''{ id }'')
                 (given ''i have a list of projects'' new_GraphQLInteraction))))
     = Some ''i have a list of projects''
   \<and> fst (json (snd (withQuery Map.empty (Some ''{ id }'')
                 (given ''i have a list of projects'' new_GraphQLInteraction))))
     = Inl (Error ''You must provide a description for the query.'')"
proof -
  define g where "g = snd (withQuery Map.empty (Some ''{ id }'')
                 (given ''i have a list of projects'' new_GraphQLInteraction))"
  have q: "query g = Some ''{ id }''" and d: "description (state g) = None"
    and p: "stateDescription (state g) = Some ''i have a list of projects''"
    by (simp_all add: g_def withQuery_def given_def new_GraphQLInteraction_def)
  from json_missing_description [OF q d] q p show ?thesis
    unfolding g_def by simp
qed

section \<open>Finalization without a query\<close>

text \<open>
  C3.  Take a builder that holds no query, whatever its other fields are, and a
  parser that rejects the empty string, as a GraphQL parser does (an empty document
  is a syntax error).  Then \<^verbatim>\<open>json\<close> fails with the missing-query error in each of
  the three cases: after \<^verbatim>\<open>withQuery("")\<close>, after \<^verbatim>\<open>withQuery(null)\<close>, and with no
  call of \<^verbatim>\<open>withQuery\<close> at all.  Neither call stores a query: \<^verbatim>\<open>withQuery(null)\<close>
  throws the missing-query error itself, and \<^verbatim>\<open>withQuery("")\<close> throws the parser's
  error.
\<close>

theorem json_missing_query:
  assumes "gql [] = Some message" and "query g = None"
  shows "fst (json (snd (withQuery gql (Some []) g)))
           = Inl (Error ''You must provide a GraphQL query.'')
       \<and> fst (json (snd (withQuery gql None g)))
           = Inl (Error ''You must provide a GraphQL query.'')
       \<and> fst (json g) = Inl (Error ''You must provide a GraphQL query.'')
       \<and> fst (withQuery gql None g) = Some (Error ''You must provide a GraphQL query.'')
       \<and> fst (withQuery gql (Some []) g)
           = Some (Error (''GraphQL Query is invalid: '' @ message))"
  using assms by (simp add: withQuery_def json_no_query)

theorem json_missing_query_witness:
  "map_of [([], ''Syntax Error: Unexpected <EOF>'')] [] = Some ''Syntax Error: Unexpected <EOF>''
   \<and> query (withVariables (JObj Map.empty)
              (given ''i have a list of projects''
                 (uponReceiving ''a request for projects'' new_GraphQLInteraction))) = None
   \<and> fst (json (snd (withQuery (map_of [([], ''Syntax Error: Unexpected <EOF>'')]) (Some [])
              (withVariables (JObj Map.empty)
                 (given ''i have a list of projects''
                    (uponReceiving ''a request for projects'' new_GraphQLInteraction))))))
       = Inl (Error ''You must provide a GraphQL query.'')
   \<and> fst (json (snd (withQuery (map_of [([], ''Syntax Error: Unexpected <EOF>'')]) None
              (withVariables (JObj Map.empty)
                 (given ''i have a list of projects''
                    (uponReceiving ''a request for projects'' new_GraphQLInteraction))))))
       = Inl (Error ''You must provide a GraphQL query.'')
   \<and> fst (json (withVariables (JObj Map.empty)
                 (given ''i have a list of projects''
                    (uponReceiving ''a request for projects'' new_GraphQLInteraction))))
       = Inl (Error ''You must provide a GraphQL query.'')"
proof -
  define g where "g = withVariables (JObj Map.empty)
                 (given ''i have a list of projects''
                    (uponReceiving ''a request for projects'' new_GraphQLInteraction))"
  have p: "map_of [([], ''Syntax Error: Unexpected <EOF>'')] []
             = Some ''Syntax Error: Unexpected <EOF>''"
    by simp
  have q: "query g = None"
    by (simp add: g_def withVariables_def given_def uponReceiving_def
          new_GraphQLInteraction_def)
  from json_missing_query
         [of "map_of [([], ''Syntax Error: Unexpected <EOF>'')]"
             "''Syntax Error: Unexpected <EOF>''" g, OF p q] p q
  show ?thesis
    unfolding g_def by simp
qed

section \<open>The operation kind\<close>

text \<open>
  C6, as stated: after \<^verbatim>\<open>withOperation(v)\<close> with \<open>v\<close> one of \<^verbatim>\<open>query\<close> and
  \<^verbatim>\<open>mutation\<close>, the \<^verbatim>\<open>operationName\<close> of the body of the finalized record is
  \<open>v\<close>.  This does not hold when the request stored in the builder already has a
  body, which then wins the merge of lines 105 to 113.  After an earlier \<^verbatim>\<open>json\<close>
  with the operation \<^verbatim>\<open>query\<close>, \<^verbatim>\<open>withOperation("mutation")\<close> returns normally and
  stores \<^verbatim>\<open>mutation\<close>, and the finalized \<^verbatim>\<open>operationName\<close> is still \<^verbatim>\<open>query\<close>; and
  after the caller has passed a body of their own to \<^verbatim>\<open>withRequest\<close>, the finalized
  body is that body and has no \<^verbatim>\<open>operationName\<close>.
\<close>

theorem withOperation_counterexample:
  "fst (withOperation (Some ''mutation'')
          (snd (json (snd (withOperation (Some ''query'')
             (snd (withQuery Map.empty (Some ''{ id }'')
                (uponReceiving ''a request'' new_GraphQLInteraction)))))))) = None
   \<and> operation (snd (withOperation (Some ''mutation'')
          (snd (json (snd (withOperation (Some ''query'')
             (snd (withQuery Map.empty (Some ''{ id }'')
                (uponReceiving ''a request'' new_GraphQLInteraction))))))))) = Some ''mutation''
   \<and> (\<exists>st. fst (json (snd (withOperation (Some ''mutation'')
          (snd (json (snd (withOperation (Some ''query'')
             (snd (withQuery Map.empty (Some ''{ id }'')
                (uponReceiving ''a request'' new_GraphQLInteraction)))))))))) = Inr st
         \<and> body_property st ''operationName'' = Some (JStr ''query''))
   \<and> operation (snd (withOperation (Some ''mutation'')
          (withRequest [''body'' \<mapsto> JObj Map.empty]
             (snd (withQuery Map.empty (Some ''{ id }'')
                (uponReceiving ''a request'' new_GraphQLInteraction)))))) = Some ''mutation''
   \<and> (\<exists>st. fst (json (snd (withOperation (Some ''mutation'')
          (withRequest [''body'' \<mapsto> JObj Map.empty]
             (snd (withQuery Map.empty (Some ''{ id }'')
                (uponReceiving ''a request'' new_GraphQLInteraction))))))) = Inr st
         \<and> body_property st ''operationName'' = None)"
proof -
  define g0 where "g0 = snd (withQuery Map.empty (Some ''{ id }'')
                (uponReceiving ''a request'' new_GraphQLInteraction))"
  have g0: "query g0 = Some ''{ id }''" "description (state g0) = Some ''a request''"
    "request (state g0) = None"
    by (simp_all add: g0_def withQuery_def uponReceiving_def new_GraphQLInteraction_def)
  define g1 where "g1 = snd (withOperation (Some ''query'') g0)"
  have g1: "g1 = g0\<lparr>operation := Some ''query''\<rparr>"
    by (simp add: g1_def withOperation_accepts)
  have q1: "query g1 = Some ''{ id }''" and d1: "description (state g1) = Some ''a request''"
    and b1: "request_property (state g1) ''body'' = None"
    using g0 by (simp_all add: g1 request_property_def)
  obtain st1 where st1: "fst (json g1) = Inr st1"
    using json_success [OF q1 d1] by simp
  from json_keeps_fields [OF st1] have s1: "snd (json g1) = g1\<lparr>state := st1\<rparr>"
    and ds1: "description st1 = Some ''a request''"
    using d1 by simp_all
  have n1: "body_property st1 ''operationName'' = Some (JStr ''query'')"
    using body_property_json(1) [OF st1 q1 b1] by (simp add: g1)
  then obtain body1 where body1: "request_property st1 ''body'' = Some body1"
    and p1: "property ''operationName'' body1 = Some (JStr ''query'')"
    by (auto simp: body_property_def split: option.splits)
  define g2 where "g2 = snd (withOperation (Some ''mutation'') (snd (json g1)))"
  have w2: "withOperation (Some ''mutation'') (snd (json g1))
              = (None, (snd (json g1))\<lparr>operation := Some ''mutation''\<rparr>)"
    by (simp add: withOperation_accepts)
  then have g2: "g2 = g1\<lparr>state := st1, operation := Some ''mutation''\<rparr>"
    by (simp add: g2_def s1)
  have q2: "query g2 = Some ''{ id }''" and d2: "description (state g2) = Some ''a request''"
    using q1 ds1 by (simp_all add: g2)
  obtain st2 where st2: "fst (json g2) = Inr st2"
    using json_success [OF q2 d2] by simp
  have "request_property st2 ''body'' = Some body1"
    using request_property_json [OF st2 q2, of "''body''"] body1 by (simp add: g2)
  with p1 have n2: "body_property st2 ''operationName'' = Some (JStr ''query'')"
    by (simp add: body_property_def)
  define h where "h = snd (withOperation (Some ''mutation'')
                             (withRequest [''body'' \<mapsto> JObj Map.empty] g0))"
  have h: "h = (withRequest [''body'' \<mapsto> JObj Map.empty] g0)\<lparr>operation := Some ''mutation''\<rparr>"
    by (simp add: h_def withOperation_accepts)
  have qh: "query h = Some ''{ id }''" and dh: "description (state h) = Some ''a request''"
    and bh: "request_property (state h) ''body'' = Some (JObj Map.empty)"
    using g0 by (simp_all add: h withRequest_def request_property_def)
  obtain sth where sth: "fst (json h) = Inr sth"
    using json_success [OF qh dh] by simp
  have "request_property sth ''body'' = Some (JObj Map.empty)"
    using request_property_json [OF sth qh, of "''body''"] bh by simp
  then have nh: "body_property sth ''operationName'' = None"
    by (simp add: body_property_def)
  have 1: "fst (withOperation (Some ''mutation'') (snd (json g1))) = None"
    using w2 by simp
  have 2: "operation g2 = Some ''mutation''" by (simp add: g2)
  have 3: "\<exists>st. fst (json g2) = Inr st \<and> body_property st ''operationName'' = Some (JStr ''query'')"
    using st2 n2 by blast
  have 4: "operation h = Some ''mutation''" by (simp add: h)
  have 5: "\<exists>st. fst (json h) = Inr st \<and> body_property st ''operationName'' = None"
    using sth nh by blast
  from 1 2 3 4 5 show ?thesis
    unfolding h_def g2_def g1_def g0_def by blast
qed

text \<open>
  C6, amended.  For \<open>v\<close> one of \<^verbatim>\<open>query\<close> and \<^verbatim>\<open>mutation\<close>, \<^verbatim>\<open>withOperation(v)\<close>
  returns normally and stores \<open>v\<close> over whatever operation was stored before; and
  when the builder can be finalized (it has a query and a description) and the
  request stored in it has no body (the caller passed none to \<^verbatim>\<open>withRequest\<close> and
  no earlier \<^verbatim>\<open>json\<close> left one), the \<^verbatim>\<open>operationName\<close> of the body of the finalized
  record is that \<open>v\<close>.  For every other argument, \<^verbatim>\<open>null\<close>, the empty string or any
  other string, \<^verbatim>\<open>withOperation\<close> throws an error whose message lists the valid
  kinds, \<^verbatim>\<open>query, mutation\<close>, and stores nothing.
\<close>

theorem withOperation_valid_invalid:
  "(v \<in> {''query'', ''mutation''} \<longrightarrow>
      withOperation (Some v) g = (None, g\<lparr>operation := Some v\<rparr>)
      \<and> (query g = Some q \<and> description (state g) = Some d
           \<and> request_property (state g) ''body'' = None \<longrightarrow>
         (\<exists>st. fst (json (snd (withOperation (Some v) g))) = Inr st
               \<and> body_property st ''operationName'' = Some (JStr v))))
   \<and> (op \<notin> {Some ''query'', Some ''mutation''} \<longrightarrow>
      withOperation op g =
        (Some (Error (''You must provide a valid HTTP method: ''
                        @ join '', '' (keys GraphQLOperations) @ ''.'')), g)
      \<and> ''You must provide a valid HTTP method: '' @ join '', '' (keys GraphQLOperations) @ ''.''
          = ''You must provide a valid HTTP method: query, mutation.'')"
proof (intro conjI impI)
  assume v: "v \<in> {''query'', ''mutation''}"
  then show acc: "withOperation (Some v) g = (None, g\<lparr>operation := Some v\<rparr>)"
    by (rule withOperation_accepts)
  assume h: "query g = Some q \<and> description (state g) = Some d
               \<and> request_property (state g) ''body'' = None"
  let ?g = "g\<lparr>operation := Some v\<rparr>"
  from h have q: "query ?g = Some q" and d: "description (state ?g) = Some d"
    and b: "request_property (state ?g) ''body'' = None"
    by simp_all
  obtain st where st: "fst (json ?g) = Inr st"
    using json_success [OF q d] by simp
  from body_property_json(1) [OF st q b]
  have "body_property st ''operationName'' = Some (JStr v)" by simp
  with st acc
  show "\<exists>st. fst (json (snd (withOperation (Some v) g))) = Inr st
             \<and> body_property st ''operationName'' = Some (JStr v)"
    by auto
next
  assume "op \<notin> {Some ''query'', Some ''mutation''}"
  then show "withOperation op g =
        (Some (Error (''You must provide a valid HTTP method: ''
                        @ join '', '' (keys GraphQLOperations) @ ''.'')), g)"
    unfolding operation_message by (rule withOperation_rejects)
next
  show "''You must provide a valid HTTP method: '' @ join '', '' (keys GraphQLOperations) @ ''.''
          = ''You must provide a valid HTTP method: query, mutation.''"
    by (rule operation_message)
qed

theorem withOperation_valid_invalid_witness:
  "operation (snd (withOperation (Some ''query'')
       (snd (withQuery Map.empty (Some ''{ id }'')
          (uponReceiving ''a request'' new_GraphQLInteraction))))) = Some ''query''
   \<and> fst (withOperation (Some ''mutation'')
       (snd (withOperation (Some ''query'')
          (snd (withQuery Map.empty (Some ''{ id }'')
             (uponReceiving ''a request'' new_GraphQLInteraction)))))) = None
   \<and> operation (snd (withOperation (Some ''mutation'')
       (snd (withOperation (Some ''query'')
          (snd (withQuery Map.empty (Some ''{ id }'')
             (uponReceiving ''a request'' new_GraphQLInteraction))))))) = Some ''mutation''
   \<and> (\<exists>st. fst (json (snd (withOperation (Some ''mutation'')
       (snd (withOperation (Some ''query'')
          (snd (withQuery Map.empty (Some ''{ id }'')
             (uponReceiving ''a request'' new_GraphQLInteraction)))))))) = Inr st
         \<and> body_property st ''operationName'' = Some (JStr ''mutation''))
   \<and> fst (withOperation (Some ''subscription'')
       (snd (withOperation (Some ''query'')
          (snd (withQuery Map.empty (Some ''{ id }'')
             (uponReceiving ''a request'' new_GraphQLInteraction))))))
      = Some (Error ''You must provide a valid HTTP method: query, mutation.'')"
proof -
  define g where "g = snd (withOperation (Some ''query'')
       (snd (withQuery Map.empty (Some ''{ id }'')
          (uponReceiving ''a request'' new_GraphQLInteraction))))"
  have g: "g = (uponReceiving ''a request'' new_GraphQLInteraction)
                 \<lparr>operation := Some ''query'', query := Some ''{ id }''\<rparr>"
    by (simp add: g_def withOperation_accepts withQuery_def)
  have o: "operation g = Some ''query''" and q: "query g = Some ''{ id }''"
    and d: "description (state g) = Some ''a request''"
    and b: "request_property (state g) ''body'' = None"
    by (simp_all add: g uponReceiving_def new_GraphQLInteraction_def request_property_def)
  have m: "''mutation'' \<in> {''query'', ''mutation''}"
    and s: "Some ''subscription'' \<notin> {Some ''query'', Some ''mutation''}"
    by simp_all
  from withOperation_valid_invalid
         [of "''mutation''" g "''{ id }''" "''a request''" "Some ''subscription''"]
       m s o q d b
  show ?thesis
    unfolding g_def [symmetric] operation_message by auto
qed

section \<open>Merging the caller's request\<close>

text \<open>
  C1, as stated: after \<^verbatim>\<open>withRequest({ headers: { "X-Custom": "1" } })\<close> the headers
  of the finalized request hold both \<^verbatim>\<open>X-Custom\<close> and \<^verbatim>\<open>content-type\<close>.  They do
  not: \<^verbatim>\<open>extend\<close> copies the caller's \<^verbatim>\<open>headers\<close> property over the derived one,
  whole, and the finalized headers are the caller's object, with no
  \<^verbatim>\<open>content-type\<close>.
\<close>

theorem json_headers_counterexample:
  "\<exists>st. fst (json (withRequest [''headers'' \<mapsto> JObj [''X-Custom'' \<mapsto> JStr ''1'']]
                    (snd (withQuery Map.empty (Some ''{ id }'')
                       (uponReceiving ''a request'' new_GraphQLInteraction))))) = Inr st
        \<and> header st ''X-Custom'' = Some (JStr ''1'')
        \<and> header st ''content-type'' = None
        \<and> request_property st ''method'' = Some (JStr ''POST'')"
proof -
  define g where "g = withRequest [''headers'' \<mapsto> JObj [''X-Custom'' \<mapsto> JStr ''1'']]
                    (snd (withQuery Map.empty (Some ''{ id }'')
                       (uponReceiving ''a request'' new_GraphQLInteraction)))"
  have q: "query g = Some ''{ id }''" and d: "description (state g) = Some ''a request''"
    and r: "request (state g) = Some [''headers'' \<mapsto> JObj [''X-Custom'' \<mapsto> JStr ''1'']]"
    by (simp_all add: g_def withRequest_def withQuery_def uponReceiving_def
          new_GraphQLInteraction_def)
  obtain st where st: "fst (json g) = Inr st"
    using json_success [OF q d] by simp
  from request_property_json [OF st q, of "''headers''"]
       request_property_json [OF st q, of "''method''"] r
  have "header st ''X-Custom'' = Some (JStr ''1'')"
    and "header st ''content-type'' = None"
    and "request_property st ''method'' = Some (JStr ''POST'')"
    by (simp_all add: header_def request_property_def graphql_request_simps)
  with st show ?thesis unfolding g_def by blast
qed

text \<open>
  C1, amended.  When the caller has called \<^verbatim>\<open>withRequest(r)\<close> on a builder that
  can be finalized, the merge is one level deep: every property of the finalized
  request that \<open>r\<close> has is \<open>r\<close>'s value, whole, and every property that \<open>r\<close> lacks is
  the derived one.  So the finalized headers are the caller's \<^verbatim>\<open>headers\<close> object
  when \<open>r\<close> has one, and the derived \<^verbatim>\<open>content-type: application/json\<close> object only
  when it has none; and the method is \<^verbatim>\<open>POST\<close> unless \<open>r\<close> has a method, which then
  wins.
\<close>

theorem json_merge_precedence:
  assumes "query g = Some q" and "description (state g) = Some d"
  shows "\<exists>st. fst (json (withRequest r g)) = Inr st
          \<and> (\<forall>k. request_property st k =
                   (case r k of Some v \<Rightarrow> Some v | None \<Rightarrow> graphql_request g q k))
          \<and> request_property st ''headers'' =
              (case r ''headers'' of
                 Some h \<Rightarrow> Some h
               | None \<Rightarrow> Some (JObj [''content-type'' \<mapsto> JStr ''application/json'']))
          \<and> request_property st ''method'' =
              (case r ''method'' of Some m \<Rightarrow> Some m | None \<Rightarrow> Some (JStr ''POST''))"
proof -
  let ?g = "withRequest r g"
  from assms have q: "query ?g = Some q" and d: "description (state ?g) = Some d"
    by (simp_all add: withRequest_def)
  have r: "request_property (state ?g) k = r k" for k
    by (simp add: withRequest_def request_property_def)
  have same: "graphql_request ?g q = graphql_request g q"
    by (simp add: graphql_request_def withRequest_def)
  obtain st where st: "fst (json ?g) = Inr st"
    using json_success [OF q d] by simp
  have all: "request_property st k =
               (case r k of Some v \<Rightarrow> Some v | None \<Rightarrow> graphql_request g q k)" for k
    using request_property_json [OF st q, of k]
    by (simp add: r same split: option.splits)
  from all [of "''headers''"] all [of "''method''"] all st show ?thesis
    by (auto simp: graphql_request_simps split: option.splits)
qed

theorem json_merge_precedence_witness:
  "(\<exists>st. fst (json (withRequest [''headers'' \<mapsto> JObj [''X-Custom'' \<mapsto> JStr ''1'']]
                    (snd (withQuery Map.empty (Some ''{ id }'')
                       (uponReceiving ''a request'' new_GraphQLInteraction))))) = Inr st
        \<and> request_property st ''headers'' = Some (JObj [''X-Custom'' \<mapsto> JStr ''1''])
        \<and> request_property st ''method'' = Some (JStr ''POST''))
   \<and> (\<exists>st. fst (json (withRequest [''method'' \<mapsto> JStr ''GET'']
                    (snd (withQuery Map.empty (Some ''{ id }'')
                       (uponReceiving ''a request'' new_GraphQLInteraction))))) = Inr st
        \<and> request_property st ''headers''
            = Some (JObj [''content-type'' \<mapsto> JStr ''application/json''])
        \<and> request_property st ''method'' = Some (JStr ''GET''))"
proof -
  define g where "g = snd (withQuery Map.empty (Some ''{ id }'')
                       (uponReceiving ''a request'' new_GraphQLInteraction))"
  have q: "query g = Some ''{ id }''" and d: "description (state g) = Some ''a request''"
    by (simp_all add: g_def withQuery_def uponReceiving_def new_GraphQLInteraction_def)
  from json_merge_precedence [OF q d, of "[''headers'' \<mapsto> JObj [''X-Custom'' \<mapsto> JStr ''1'']]"]
  obtain st where
    "fst (json (withRequest [''headers'' \<mapsto> JObj [''X-Custom'' \<mapsto> JStr ''1'']] g)) = Inr st"
    and "request_property st ''headers'' = Some (JObj [''X-Custom'' \<mapsto> JStr ''1''])"
    and "request_property st ''method'' = Some (JStr ''POST'')"
    by auto
  then have a: "\<exists>st. fst (json (withRequest [''headers'' \<mapsto> JObj [''X-Custom'' \<mapsto> JStr ''1'']] g))
                  = Inr st
        \<and> request_property st ''headers'' = Some (JObj [''X-Custom'' \<mapsto> JStr ''1''])
        \<and> request_property st ''method'' = Some (JStr ''POST'')"
    by blast
  from json_merge_precedence [OF q d, of "[''method'' \<mapsto> JStr ''GET'']"]
  obtain st' where
    "fst (json (withRequest [''method'' \<mapsto> JStr ''GET''] g)) = Inr st'"
    and "request_property st' ''headers''
           = Some (JObj [''content-type'' \<mapsto> JStr ''application/json''])"
    and "request_property st' ''method'' = Some (JStr ''GET'')"
    by auto
  then have b: "\<exists>st. fst (json (withRequest [''method'' \<mapsto> JStr ''GET''] g)) = Inr st
        \<and> request_property st ''headers''
            = Some (JObj [''content-type'' \<mapsto> JStr ''application/json''])
        \<and> request_property st ''method'' = Some (JStr ''GET'')"
    by blast
  from a b show ?thesis unfolding g_def by (rule conjI)
qed

section \<open>The descriptor of the query\<close>

text \<open>
  C4, as stated: for every query stored by \<^verbatim>\<open>withQuery\<close>, the descriptor in the
  \<^verbatim>\<open>query\<close> field of the finalized body has the stored query as its \<^verbatim>\<open>generate\<close>.
  This does not hold when the request stored in the builder already has a body,
  which then wins the merge of lines 105 to 113.  After an earlier \<^verbatim>\<open>json\<close> with
  the query \<^verbatim>\<open>{ a }\<close>, \<^verbatim>\<open>withQuery("{ b }")\<close> stores the new query and the finalized
  descriptor still has \<^verbatim>\<open>{ a }\<close> as its \<^verbatim>\<open>generate\<close>; and after the caller has passed
  a body of their own to \<^verbatim>\<open>withRequest\<close>, the finalized body is that body and has no
  descriptor.
\<close>

theorem json_query_descriptor_counterexample:
  "query (snd (withQuery Map.empty (Some ''{ b }'')
          (snd (json (snd (withQuery Map.empty (Some ''{ a }'')
             (uponReceiving ''a request'' new_GraphQLInteraction))))))) = Some ''{ b }''
   \<and> (\<exists>st. fst (json (snd (withQuery Map.empty (Some ''{ b }'')
          (snd (json (snd (withQuery Map.empty (Some ''{ a }'')
             (uponReceiving ''a request'' new_GraphQLInteraction)))))))) = Inr st
         \<and> descriptor_property st ''generate'' = Some (JStr ''{ a }''))
   \<and> query (withRequest [''body'' \<mapsto> JObj Map.empty]
          (snd (withQuery Map.empty (Some ''{ b }'')
             (uponReceiving ''a request'' new_GraphQLInteraction)))) = Some ''{ b }''
   \<and> (\<exists>st. fst (json (withRequest [''body'' \<mapsto> JObj Map.empty]
          (snd (withQuery Map.empty (Some ''{ b }'')
             (uponReceiving ''a request'' new_GraphQLInteraction))))) = Inr st
         \<and> descriptor_property st ''generate'' = None
         \<and> descriptor_property st ''matcher'' = None)"
proof -
  define g0 where "g0 = uponReceiving ''a request'' new_GraphQLInteraction"
  have g0: "description (state g0) = Some ''a request''" "request (state g0) = None"
    by (simp_all add: g0_def uponReceiving_def new_GraphQLInteraction_def)
  define g1 where "g1 = snd (withQuery Map.empty (Some ''{ a }'') g0)"
  have g1: "g1 = g0\<lparr>query := Some ''{ a }''\<rparr>"
    by (simp add: g1_def withQuery_def)
  have q1: "query g1 = Some ''{ a }''" and d1: "description (state g1) = Some ''a request''"
    and b1: "request_property (state g1) ''body'' = None"
    using g0 by (simp_all add: g1 request_property_def)
  obtain st1 where st1: "fst (json g1) = Inr st1"
    using json_success [OF q1 d1] by simp
  from json_keeps_fields [OF st1] have s1: "snd (json g1) = g1\<lparr>state := st1\<rparr>"
    and ds1: "description st1 = Some ''a request''"
    using d1 by simp_all
  have "descriptor_property st1 ''generate'' = Some (JStr ''{ a }'')"
    by (rule descriptor_property_json(1) [OF st1 q1 b1])
  then obtain body1 where body1: "request_property st1 ''body'' = Some body1"
    and p1: "(case property ''query'' body1 of None \<Rightarrow> None
              | Some m \<Rightarrow> property ''generate'' m) = Some (JStr ''{ a }'')"
    by (auto simp: descriptor_property_def body_property_def split: option.splits)
  define g2 where "g2 = snd (withQuery Map.empty (Some ''{ b }'') (snd (json g1)))"
  have g2: "g2 = g1\<lparr>state := st1, query := Some ''{ b }''\<rparr>"
    by (simp add: g2_def s1 withQuery_def)
  have q2: "query g2 = Some ''{ b }''" and d2: "description (state g2) = Some ''a request''"
    using ds1 by (simp_all add: g2)
  obtain st2 where st2: "fst (json g2) = Inr st2"
    using json_success [OF q2 d2] by simp
  have "request_property st2 ''body'' = Some body1"
    using request_property_json [OF st2 q2, of "''body''"] body1 by (simp add: g2)
  with p1 have n2: "descriptor_property st2 ''generate'' = Some (JStr ''{ a }'')"
    by (simp add: descriptor_property_def body_property_def)
  define h where "h = withRequest [''body'' \<mapsto> JObj Map.empty]
                        (snd (withQuery Map.empty (Some ''{ b }'') g0))"
  have qh: "query h = Some ''{ b }''" and dh: "description (state h) = Some ''a request''"
    and bh: "request_property (state h) ''body'' = Some (JObj Map.empty)"
    using g0 by (simp_all add: h_def withRequest_def withQuery_def request_property_def)
  obtain sth where sth: "fst (json h) = Inr sth"
    using json_success [OF qh dh] by simp
  have "request_property sth ''body'' = Some (JObj Map.empty)"
    using request_property_json [OF sth qh, of "''body''"] bh by simp
  then have nh: "descriptor_property sth ''generate'' = None"
    "descriptor_property sth ''matcher'' = None"
    by (simp_all add: descriptor_property_def body_property_def)
  have 2: "\<exists>st. fst (json g2) = Inr st
              \<and> descriptor_property st ''generate'' = Some (JStr ''{ a }'')"
    using st2 n2 by blast
  have 4: "\<exists>st. fst (json h) = Inr st \<and> descriptor_property st ''generate'' = None
              \<and> descriptor_property st ''matcher'' = None"
    using sth nh by blast
  from q2 2 qh 4 show ?thesis
    unfolding h_def g2_def g1_def g0_def by blast
qed

text \<open>
  C4, amended.  When \<^verbatim>\<open>json\<close> returns a record for a builder that holds the query
  \<open>q\<close>, and the request stored in the builder has no body (the caller passed none
  to \<^verbatim>\<open>withRequest\<close> and no earlier \<^verbatim>\<open>json\<close> left one), the descriptor in the
  \<^verbatim>\<open>query\<close> field of the body has \<open>q\<close> itself, unmodified, as its \<^verbatim>\<open>generate\<close>, and
  as its \<^verbatim>\<open>matcher\<close> the string \<open>q\<close> with every maximal run of whitespace replaced
  by the class for one or more whitespace characters, written backslash, \<open>s\<close>,
  \<open>+\<close>, and every other character unchanged.
\<close>

theorem json_query_descriptor:
  assumes "fst (json g) = Inr st" and "query g = Some q"
    and "request_property (state g) ''body'' = None"
  shows "descriptor_property st ''generate'' = Some (JStr q)
       \<and> descriptor_property st ''matcher'' = Some (JStr (spec_matcher q))"
  using descriptor_property_json [OF assms] by (simp add: replace_spaces_refines)

theorem json_query_descriptor_witness:
  "\<exists>st. fst (json (snd (withQuery Map.empty
                    (Some (''{ Category(id:7) {'' @ [CHR 0x0A] @ ''  id'' @ [CHR 0x0A] @ ''} }''))
                    (uponReceiving ''a request'' new_GraphQLInteraction)))) = Inr st
        \<and> descriptor_property st ''generate''
            = Some (JStr (''{ Category(id:7) {'' @ [CHR 0x0A] @ ''  id'' @ [CHR 0x0A] @ ''} }''))
        \<and> descriptor_property st ''matcher''
            = Some (JStr (''{'' @ [CHR 0x5C] @ ''s+Category(id:7)'' @ [CHR 0x5C] @ ''s+{''
                          @ [CHR 0x5C] @ ''s+id'' @ [CHR 0x5C] @ ''s+}'' @ [CHR 0x5C]
                          @ ''s+}''))"
proof -
  define q where "q = ''{ Category(id:7) {'' @ [CHR 0x0A] @ ''  id'' @ [CHR 0x0A] @ ''} }''"
  define g where "g = snd (withQuery Map.empty (Some q)
                             (uponReceiving ''a request'' new_GraphQLInteraction))"
  have gq: "query g = Some q" and d: "description (state g) = Some ''a request''"
    and b: "request_property (state g) ''body'' = None"
    by (simp_all add: g_def withQuery_def uponReceiving_def new_GraphQLInteraction_def
          request_property_def)
  obtain st where st: "fst (json g) = Inr st"
    using json_success [OF gq d] by simp
  have m: "spec_matcher q = ''{'' @ [CHR 0x5C] @ ''s+Category(id:7)'' @ [CHR 0x5C] @ ''s+{''
                          @ [CHR 0x5C] @ ''s+id'' @ [CHR 0x5C] @ ''s+}'' @ [CHR 0x5C]
                          @ ''s+}''"
    by (simp add: q_def spec_matcher_def isspace_def)
  from json_query_descriptor [OF st gq b] m st show ?thesis
    unfolding g_def q_def by auto
qed

section \<open>What the derived matcher is\<close>

text \<open>
  C2.  The claim is that the matcher derived from a query accepts every
  whitespace variant of it, and the comment above \<^verbatim>\<open>withQuery\<close> promises a
  space-insensitive matcher.  What line 108 derives: the query \<^verbatim>\<open>{id}\<close> has no
  whitespace, so its matcher is \<^verbatim>\<open>{id}\<close> itself, with no class for whitespace in
  it, although \<^verbatim>\<open>{ id }\<close> is a whitespace variant of the query; and the matcher of
  \<^verbatim>\<open>{ id }\<close> has the class, which stands for one or more whitespace characters,
  in both places, although \<^verbatim>\<open>{id}\<close>, with no whitespace there, is a variant too.
\<close>

theorem derived_matcher_evaluation:
  "(\<exists>st. fst (json (snd (withQuery Map.empty (Some ''{id}'')
                     (uponReceiving ''a request'' new_GraphQLInteraction)))) = Inr st
         \<and> descriptor_property st ''matcher'' = Some (JStr ''{id}''))
   \<and> whitespace_variant ''{id}'' ''{ id }''
   \<and> (\<exists>st. fst (json (snd (withQuery Map.empty (Some ''{ id }'')
                     (uponReceiving ''a request'' new_GraphQLInteraction)))) = Inr st
         \<and> descriptor_property st ''matcher''
             = Some (JStr (''{'' @ [CHR 0x5C] @ ''s+id'' @ [CHR 0x5C] @ ''s+}'')))
   \<and> whitespace_variant ''{ id }'' ''{id}''"
proof -
  have g: "query (snd (withQuery Map.empty (Some q)
                     (uponReceiving ''a request'' new_GraphQLInteraction))) = Some q"
    "description (state (snd (withQuery Map.empty (Some q)
                     (uponReceiving ''a request'' new_GraphQLInteraction)))) = Some ''a request''"
    "request_property (state (snd (withQuery Map.empty (Some q)
                     (uponReceiving ''a request'' new_GraphQLInteraction)))) ''body'' = None"
    for q
    by (simp_all add: withQuery_def uponReceiving_def new_GraphQLInteraction_def
          request_property_def)
  have m: "\<exists>st. fst (json (snd (withQuery Map.empty (Some q)
                     (uponReceiving ''a request'' new_GraphQLInteraction)))) = Inr st
         \<and> descriptor_property st ''matcher'' = Some (JStr (replace_spaces space_class q))"
    for q
  proof -
    obtain st where st: "fst (json (snd (withQuery Map.empty (Some q)
                     (uponReceiving ''a request'' new_GraphQLInteraction)))) = Inr st"
      using json_success [OF g(1,2)] by simp
    from descriptor_property_json(2) [OF st g(1,3)] st show ?thesis by blast
  qed
  have 1: "replace_spaces space_class ''{id}'' = ''{id}''"
    by (simp add: isspace_def)
  have 2: "replace_spaces space_class ''{ id }''
             = ''{'' @ [CHR 0x5C] @ ''s+id'' @ [CHR 0x5C] @ ''s+}''"
    by (simp add: isspace_def space_class_def backslash_def)
  have 3: "whitespace_variant ''{id}'' ''{ id }''"
    and 4: "whitespace_variant ''{ id }'' ''{id}''"
    by (simp_all add: whitespace_variant_def isspace_def)
  from m [of "''{id}''"] m [of "''{ id }''"] 3 4 show ?thesis
    unfolding 1 2 by blast
qed

section \<open>The end-to-end scenario\<close>

text \<open>
  C5.  With a parser that accepts the query, the scenario returns a record whose
  request has the method \<^verbatim>\<open>POST\<close>, the header \<^verbatim>\<open>content-type: application/json\<close> and
  a body with \<^verbatim>\<open>operationName\<close> \<^verbatim>\<open>null\<close>, the empty \<^verbatim>\<open>variables\<close> and, as \<^verbatim>\<open>query\<close>,
  a descriptor whose \<^verbatim>\<open>generate\<close> is the query as it was given.  The pattern of
  the descriptor is the query with the class, which stands for one or more
  whitespace characters, in the place of each of its six whitespace runs, and the
  parentheses of \<^verbatim>\<open>(id:7)\<close> as they are: it is not a pattern for any whitespace
  variant of the query, as the claim and the comment above \<^verbatim>\<open>withQuery\<close> have it.
  The description and the provider state are those of the scenario.
\<close>

theorem scenario_record:
  assumes "gql ''{ Category(id:7) { id name } }'' = None"
  shows "\<exists>st. fst (json (withVariables (JObj Map.empty)
                     (snd (withQuery gql (Some ''{ Category(id:7) { id name } }'')
                        (given ''i have a list of projects''
                           (uponReceiving ''a request for projects''
                              new_GraphQLInteraction)))))) = Inr st
          \<and> request_property st ''method'' = Some (JStr ''POST'')
          \<and> header st ''content-type'' = Some (JStr ''application/json'')
          \<and> body_property st ''operationName'' = Some JNull
          \<and> body_property st ''variables'' = Some (JObj Map.empty)
          \<and> descriptor_property st ''generate''
              = Some (JStr ''{ Category(id:7) { id name } }'')
          \<and> descriptor_property st ''matcher''
              = Some (JStr (''{'' @ [CHR 0x5C] @ ''s+Category(id:7)'' @ [CHR 0x5C] @ ''s+{''
                            @ [CHR 0x5C] @ ''s+id'' @ [CHR 0x5C] @ ''s+name'' @ [CHR 0x5C]
                            @ ''s+}'' @ [CHR 0x5C] @ ''s+}''))
          \<and> description st = Some ''a request for projects''
          \<and> stateDescription st = Some ''i have a list of projects''"
proof -
  define g where "g = withVariables (JObj Map.empty)
                     (snd (withQuery gql (Some ''{ Category(id:7) { id name } }'')
                        (given ''i have a list of projects''
                           (uponReceiving ''a request for projects''
                              new_GraphQLInteraction))))"
  from assms have g: "g = \<lparr> state = \<lparr> description = Some ''a request for projects'',
                                       stateDescription = Some ''i have a list of projects'',
                                       request = None, response = None \<rparr>,
                            operation = None, variables = JObj Map.empty,
                            query = Some ''{ Category(id:7) { id name } }'' \<rparr>"
    by (simp add: g_def withVariables_def withQuery_def given_def uponReceiving_def
          new_GraphQLInteraction_def)
  have q: "query g = Some ''{ Category(id:7) { id name } }''"
    and d: "description (state g) = Some ''a request for projects''"
    and b: "request_property (state g) ''body'' = None"
    and o: "operation g = None" and v: "variables g = JObj Map.empty"
    and p: "stateDescription (state g) = Some ''i have a list of projects''"
    and r: "request (state g) = None"
    by (simp_all add: g request_property_def)
  obtain st where st: "fst (json g) = Inr st"
    using json_success [OF q d] by simp
  have m: "replace_spaces space_class ''{ Category(id:7) { id name } }''
             = ''{'' @ [CHR 0x5C] @ ''s+Category(id:7)'' @ [CHR 0x5C] @ ''s+{''
                 @ [CHR 0x5C] @ ''s+id'' @ [CHR 0x5C] @ ''s+name'' @ [CHR 0x5C]
                 @ ''s+}'' @ [CHR 0x5C] @ ''s+}''"
    by (simp add: isspace_def space_class_def backslash_def)
  have 1: "request_property st ''method'' = Some (JStr ''POST'')"
    using request_property_json [OF st q, of "''method''"] r
    by (simp add: request_property_def graphql_request_simps)
  have 2: "header st ''content-type'' = Some (JStr ''application/json'')"
    using request_property_json [OF st q, of "''headers''"] r
    by (simp add: header_def request_property_def graphql_request_simps)
  have 3: "body_property st ''operationName'' = Some JNull"
    using body_property_json(1) [OF st q b] o by simp
  have 4: "body_property st ''variables'' = Some (JObj Map.empty)"
    using body_property_json(3) [OF st q b] v by simp
  have 5: "descriptor_property st ''generate'' = Some (JStr ''{ Category(id:7) { id name } }'')"
    by (rule descriptor_property_json(1) [OF st q b])
  have 6: "descriptor_property st ''matcher''
              = Some (JStr (''{'' @ [CHR 0x5C] @ ''s+Category(id:7)'' @ [CHR 0x5C] @ ''s+{''
                            @ [CHR 0x5C] @ ''s+id'' @ [CHR 0x5C] @ ''s+name'' @ [CHR 0x5C]
                            @ ''s+}'' @ [CHR 0x5C] @ ''s+}''))"
    using descriptor_property_json(2) [OF st q b] unfolding m .
  have 8: "description st = Some ''a request for projects''"
    and 9: "stateDescription st = Some ''i have a list of projects''"
    using json_keeps_fields [OF st] d p by simp_all
  from st 1 2 3 4 5 6 8 9 show ?thesis unfolding g_def by blast
qed

theorem scenario_record_witness:
  "(\<exists>st. fst (json (withVariables (JObj Map.empty)
                     (snd (withQuery Map.empty (Some ''{ Category(id:7) { id name } }'')
                        (given ''i have a list of projects''
                           (uponReceiving ''a request for projects''
                              new_GraphQLInteraction)))))) = Inr st
          \<and> request_property st ''method'' = Some (JStr ''POST'')
          \<and> header st ''content-type'' = Some (JStr ''application/json'')
          \<and> descriptor_property st ''generate''
              = Some (JStr ''{ Category(id:7) { id name } }'')
          \<and> descriptor_property st ''matcher''
              = Some (JStr (''{'' @ [CHR 0x5C] @ ''s+Category(id:7)'' @ [CHR 0x5C] @ ''s+{''
                            @ [CHR 0x5C] @ ''s+id'' @ [CHR 0x5C] @ ''s+name'' @ [CHR 0x5C]
                            @ ''s+}'' @ [CHR 0x5C] @ ''s+}'')))
   \<and> whitespace_variant ''{ Category(id:7) { id name } }'' ''{Category(id:7){id name}}''"
proof -
  have p: "Map.empty ''{ Category(id:7) { id name } }'' = (None :: string option)"
    by simp
  have v: "whitespace_variant ''{ Category(id:7) { id name } }'' ''{Category(id:7){id name}}''"
    by (simp add: whitespace_variant_def isspace_def)
  from scenario_record [of Map.empty, OF p] v show ?thesis
    by blast
qed

end
